theory Spec2Isabelle
  imports Main "HOL-Library.Char_ord" "HOL-Library.List_Lexorder"
begin

section \<open>Shared data\<close>

text \<open>
  Python strings are modelled as \<^typ>\<open>string\<close>, the UTF-8 bytes of the text. Concatenation
  of texts is concatenation of their encodings, and the order Python's \<open>sorted\<close> uses on
  \<open>str\<close> (lexicographic by code point) is the lexicographic order of the UTF-8 bytes,
  which is the order \<open>List_Lexorder\<close> and \<open>Char_ord\<close> give to \<^typ>\<open>string\<close>.
\<close>

text \<open>
  The exceptions the three scripts distinguish: \<open>ValueError\<close> (raised by
  \<open>get_vector_store\<close>), \<open>psycopg2.OperationalError\<close> (caught and re-raised there),
  \<open>psycopg2.errors.UndefinedTable\<close> (caught by \<open>get_stored_files\<close>); every other
  exception class is \<open>OtherException\<close>. The argument is the message, \<open>str(e)\<close>.
\<close>

datatype exn =
    ValueError string
  | OperationalError string
  | UndefinedTable string
  | OtherException string

fun exn_message :: "exn \<Rightarrow> string" where
  "exn_message (ValueError m) = m"
| "exn_message (OperationalError m) = m"
| "exn_message (UndefinedTable m) = m"
| "exn_message (OtherException m) = m"

text \<open>
  A node (chunk) as the scripts see it: the identifier of the document it was cut from,
  its text and its metadata dictionary.
\<close>

record node =
  ref_doc_id :: string
  node_text :: string
  metadata :: "string \<rightharpoonup> string"

text \<open>A document as a reader loads it, before it is split into nodes.\<close>

record document =
  doc_id :: string
  doc_text :: string
  doc_metadata :: "string \<rightharpoonup> string"

section \<open>The chat loop of app.py\<close>

record message =
  role :: string
  content :: string

text \<open>
  What \<open>query_engine.query(prompt)\<close> hands back: the generator \<open>response_gen\<close>, that
  is the fragments it yields in order and the exception it raises after them (if it
  does not end normally), and the retrieved \<open>source_nodes\<close>.
\<close>

record streaming_response =
  response_gen :: "string list"
  gen_raises :: "exn option"
  source_nodes :: "node list"

definition greeting :: string where
  "greeting =
     [CHR 0xD0, CHR 0x97, CHR 0xD0, CHR 0xB4, CHR 0xD1, CHR 0x80, CHR 0xD0, CHR 0xB0, CHR 0xD0,
      CHR 0xB2, CHR 0xD0, CHR 0xB5, CHR 0xD0, CHR 0xB9, CHR 0xD1, CHR 0x82, CHR 0xD0, CHR 0xB5]
     @ ''! '' @
     [CHR 0xD0, CHR 0x93, CHR 0xD0, CHR 0xBE, CHR 0xD1, CHR 0x82, CHR 0xD0, CHR 0xBE, CHR 0xD0,
      CHR 0xB2]
     @ '' '' @ [CHR 0xD1, CHR 0x81, CHR 0xD1, CHR 0x8A, CHR 0xD0, CHR 0xBC]
     @ '' '' @ [CHR 0xD0, CHR 0xB4, CHR 0xD0, CHR 0xB0]
     @ '' '' @
     [CHR 0xD0, CHR 0xBE, CHR 0xD1, CHR 0x82, CHR 0xD0, CHR 0xB3, CHR 0xD0, CHR 0xBE, CHR 0xD0,
      CHR 0xB2, CHR 0xD0, CHR 0xB0, CHR 0xD1, CHR 0x80, CHR 0xD1, CHR 0x8F, CHR 0xD0, CHR 0xBC]
     @ '' '' @ [CHR 0xD0, CHR 0xBD, CHR 0xD0, CHR 0xB0]
     @ '' '' @
     [CHR 0xD0, CHR 0xB2, CHR 0xD1, CHR 0x8A, CHR 0xD0, CHR 0xBF, CHR 0xD1, CHR 0x80, CHR 0xD0,
      CHR 0xBE, CHR 0xD1, CHR 0x81, CHR 0xD0, CHR 0xB8]
     @ '', '' @
     [CHR 0xD0, CHR 0xB1, CHR 0xD0, CHR 0xB0, CHR 0xD0, CHR 0xB7, CHR 0xD0, CHR 0xB8, CHR 0xD1,
      CHR 0x80, CHR 0xD0, CHR 0xB0, CHR 0xD0, CHR 0xBD, CHR 0xD0, CHR 0xB8]
     @ '' '' @ [CHR 0xD0, CHR 0xBD, CHR 0xD0, CHR 0xB0]
     @ '' '' @
     [CHR 0xD0, CHR 0xB4, CHR 0xD0, CHR 0xBE, CHR 0xD0, CHR 0xBA, CHR 0xD1, CHR 0x83, CHR 0xD0,
      CHR 0xBC, CHR 0xD0, CHR 0xB5, CHR 0xD0, CHR 0xBD, CHR 0xD1, CHR 0x82, CHR 0xD0, CHR 0xB8,
      CHR 0xD1, CHR 0x82, CHR 0xD0, CHR 0xB5]
     @ '' '' @ [CHR 0xD0, CHR 0xB2]
     @ '' '' @
     [CHR 0xD0, CHR 0xBC, CHR 0xD0, CHR 0xBE, CHR 0xD1, CHR 0x8F, CHR 0xD1, CHR 0x82, CHR 0xD0,
      CHR 0xB0]
     @ '' '' @ [CHR 0xD0, CHR 0xB1, CHR 0xD0, CHR 0xB0, CHR 0xD0, CHR 0xB7, CHR 0xD0, CHR 0xB0]
     @ '' '' @ [CHR 0xD0, CHR 0xBE, CHR 0xD1, CHR 0x82]
     @ '' '' @
     [CHR 0xD0, CHR 0xB7, CHR 0xD0, CHR 0xBD, CHR 0xD0, CHR 0xB0, CHR 0xD0, CHR 0xBD, CHR 0xD0,
      CHR 0xB8, CHR 0xD1, CHR 0x8F]
     @ ''.''"

text \<open>
  \<open>if "messages" not in st.session_state: st.session_state.messages = [greeting]\<close>;
  \<open>None\<close> is a session that has no \<open>messages\<close> key yet.
\<close>

definition init_messages :: "message list option \<Rightarrow> message list" where
  "init_messages st =
     (case st of
        None \<Rightarrow> [\<lparr>role = ''assistant'', content = greeting\<rparr>]
      | Some ms \<Rightarrow> ms)"

text \<open>The block cursor shown after the partial answer while the stream runs.\<close>

definition cursor :: string where
  "cursor = [CHR 0xE2, CHR 0x96, CHR 0x8C]"

text \<open>
  The streaming loop: \<open>full_response += text\<close> and one placeholder update per fragment.
  The state is the accumulated text and the placeholder updates made so far.
\<close>

fun stream_loop :: "string list \<Rightarrow> string \<times> string list \<Rightarrow> string \<times> string list" where
  "stream_loop [] (full_response, shown) = (full_response, shown)"
| "stream_loop (text # rest) (full_response, shown) =
     stream_loop rest (full_response @ text, shown @ [full_response @ text @ cursor])"

text \<open>
  The loop over \<open>source_nodes\<close> that fills the set \<open>source_files\<close>.
\<close>

fun collect_source_files :: "node list \<Rightarrow> string set \<Rightarrow> string set" where
  "collect_source_files [] source_files = source_files"
| "collect_source_files (n # ns) source_files =
     collect_source_files ns
       (case metadata n ''file_name'' of
          None \<Rightarrow> source_files
        | Some f \<Rightarrow> insert f source_files)"

definition citations_header :: string where
  "citations_header =
     ''\<newline>\<newline>---\<newline>**'' @
     [CHR 0xD0, CHR 0x98, CHR 0xD0, CHR 0xB7, CHR 0xD1, CHR 0x82, CHR 0xD0, CHR 0xBE, CHR 0xD1,
      CHR 0x87, CHR 0xD0, CHR 0xBD, CHR 0xD0, CHR 0xB8, CHR 0xD1, CHR 0x86, CHR 0xD0, CHR 0xB8]
     @ '':**''"

text \<open>\<open>for filename in ...: citations_markdown += f"\n* `{filename}`"\<close>\<close>

fun append_citations :: "string list \<Rightarrow> string \<Rightarrow> string" where
  "append_citations [] citations_markdown = citations_markdown"
| "append_citations (filename # rest) citations_markdown =
     append_citations rest (citations_markdown @ ''\<newline>* `'' @ filename @ ''`'')"

text \<open>
  The citation logic: nothing unless \<open>source_nodes\<close> is non-empty and at least one node
  carries a \<open>file_name\<close>; \<open>sorted(list(source_files))\<close> is \<^const>\<open>sorted_list_of_set\<close>.
\<close>

definition citations_markdown :: "node list \<Rightarrow> string" where
  "citations_markdown nodes =
     (if nodes \<noteq> [] then
        (let source_files = collect_source_files nodes {} in
         if source_files \<noteq> {} then
           append_citations (sorted_list_of_set source_files) ([] @ citations_header)
         else [])
      else [])"

text \<open>
  One run of the chat block with a submitted prompt. \<open>messages_after\<close> is
  \<open>st.session_state.messages\<close> when the run ends, \<open>placeholder\<close> is every value given to
  \<open>message_placeholder.markdown\<close> in order, and \<open>raised\<close> is the exception that ended the
  run early, if any.
\<close>

record turn =
  messages_after :: "message list"
  placeholder :: "string list"
  raised :: "exn option"

definition chat_turn ::
  "(string \<Rightarrow> exn + streaming_response) \<Rightarrow> message list \<Rightarrow> string \<Rightarrow> turn" where
  "chat_turn query messages prompt =
     (let messages1 = messages @ [\<lparr>role = ''user'', content = prompt\<rparr>] in
      case query prompt of
        Inl e \<Rightarrow> \<lparr>messages_after = messages1, placeholder = [], raised = Some e\<rparr>
      | Inr streaming_response \<Rightarrow>
          (let (full_response, shown) = stream_loop (response_gen streaming_response) ([], []) in
           case gen_raises streaming_response of
             Some e \<Rightarrow> \<lparr>messages_after = messages1, placeholder = shown, raised = Some e\<rparr>
           | None \<Rightarrow>
               (let final_output = full_response @ citations_markdown (source_nodes streaming_response) in
                \<lparr>messages_after = messages1 @ [\<lparr>role = ''assistant'', content = final_output\<rparr>],
                 placeholder = shown @ [final_output],
                 raised = None\<rparr>)))"

text \<open>
  The chat block of one script run: the session's messages are initialised if absent,
  and a turn runs only when \<open>st.chat_input\<close> returned a non-empty prompt.
\<close>

definition chat_block ::
  "(string \<Rightarrow> exn + streaming_response) \<Rightarrow> message list option \<Rightarrow> string option \<Rightarrow> turn" where
  "chat_block query session_messages chat_input =
     (let messages = init_messages session_messages in
      case chat_input of
        None \<Rightarrow> \<lparr>messages_after = messages, placeholder = [], raised = None\<rparr>
      | Some prompt \<Rightarrow>
          if prompt = [] then \<lparr>messages_after = messages, placeholder = [], raised = None\<rparr>
          else chat_turn query messages prompt)"


text \<open>
  The script is run again for every interaction, and \<open>st.session_state\<close> survives from
  one run to the next (also when a run ends with an exception): a session is the chat
  block run once per input, each run starting from the messages the previous one left.
\<close>

fun chat_runs ::
  "(string \<Rightarrow> exn + streaming_response) \<Rightarrow> message list option \<Rightarrow> string option list
     \<Rightarrow> message list option" where
  "chat_runs query session_messages [] = session_messages"
| "chat_runs query session_messages (chat_input # later) =
     chat_runs query (Some (messages_after (chat_block query session_messages chat_input))) later"

text \<open>
  The history loop at the top of the chat block,
  \<open>for message in st.session_state.messages: with st.chat_message(message["role"]):
  st.markdown(message["content"])\<close>: what a later run shows for the stored messages.
\<close>

definition replay :: "message list \<Rightarrow> (string \<times> string) list" where
  "replay messages = map (\<lambda>m. (role m, content m)) messages"

section \<open>The stored-file listing and the delete button of app.py\<close>

text \<open>What the scripts do to the outside world, in the order they do it.\<close>

datatype ui_event =
    Main_error string
  | Sidebar_info string
  | Sidebar_success string
  | Sidebar_error string
  | Show_exception exn
  | Cache_clear
  | Rerun
  | Stop

text \<open>
  A result row of a query: a tuple of nullable text columns. What the database session
  of \<open>get_stored_files\<close> does: \<open>psycopg2.connect\<close> raises, or \<open>c.execute\<close> raises, or
  \<open>c.fetchall()\<close> returns rows.
\<close>

type_synonym row = "string option list"

datatype db_session =
    Connect_raises exn
  | Execute_raises exn
  | Fetched "row list"

text \<open>\<open>row[0]\<close> for a row that passes the filter \<open>if row and row[0]\<close>.\<close>

fun kept_file_name :: "row \<Rightarrow> string option" where
  "kept_file_name [] = None"
| "kept_file_name (None # _) = None"
| "kept_file_name (Some s # _) = (if s = [] then None else Some s)"

text \<open>The body of the \<open>try\<close> block of \<open>get_stored_files\<close>.\<close>

definition stored_files_try :: "db_session \<Rightarrow> exn + string list" where
  "stored_files_try db =
     (case db of
        Connect_raises e \<Rightarrow> Inl e
      | Execute_raises e \<Rightarrow> Inl e
      | Fetched results \<Rightarrow> Inr (List.map_filter kept_file_name results))"

text \<open>
  \<open>get_stored_files\<close> with its two handlers, without the ten-second cache: the list
  returned and what is shown in the sidebar.
\<close>

definition get_stored_files :: "db_session \<Rightarrow> string list \<times> ui_event list" where
  "get_stored_files db =
     (case stored_files_try db of
        Inr files \<Rightarrow> (files, [])
      | Inl (UndefinedTable m) \<Rightarrow> ([], [])
      | Inl e \<Rightarrow> ([], [Sidebar_error (''DB Error: '' @ exn_message e)]))"

text \<open>
  The query text is \<open>SELECT DISTINCT metadata_->>'file_name' FROM data_agentic_rag_documents
  WHERE metadata_->>'file_name' IS NOT NULL\<close>, with no \<open>ORDER BY\<close>: on a table holding the
  given nodes, the database may answer with any duplicate-free enumeration of the
  one-column rows of the \<open>file_name\<close> values present.
\<close>

definition select_distinct_file_name :: "node list \<Rightarrow> row list \<Rightarrow> bool" where
  "select_distinct_file_name table results \<longleftrightarrow>
     distinct results \<and>
     set results = (\<lambda>f. [Some f]) ` set (List.map_filter (\<lambda>n. metadata n ''file_name'') table)"

text \<open>
  The states of the store the listing can meet, and the sessions each state allows.
\<close>

datatype database =
    Unreachable exn
  | No_table string
  | Table "node list"

fun db_answers :: "database \<Rightarrow> db_session \<Rightarrow> bool" where
  "db_answers (Unreachable e) s = (s = Connect_raises e)"
| "db_answers (No_table m) s = (s = Execute_raises (UndefinedTable m))"
| "db_answers (Table t) (Fetched results) = select_distinct_file_name t results"
| "db_answers (Table t) _ = False"

definition deleted_message :: "string \<Rightarrow> string" where
  "deleted_message file_to_manage =
     [CHR 0xF0, CHR 0x9F, CHR 0x97, CHR 0x91, CHR 0xEF, CHR 0xB8, CHR 0x8F]
     @ '' Successfully deleted '' @ [CHR 0x27] @ file_to_manage @ [CHR 0x27]"

definition delete_error_message :: string where
  "delete_error_message =
     [CHR 0xE2, CHR 0x9D, CHR 0x8C] @ '' Error deleting file. See console for details.''"

text \<open>
  The handler of the Delete File button. \<open>index.delete_ref_doc\<close> belongs to the
  framework and is a parameter: given the stored nodes and an identifier it leaves
  new stored nodes and either returns or raises. \<open>file_to_manage\<close> is the name chosen in
  the select box.
\<close>

definition delete_file ::
  "(node list \<Rightarrow> string \<Rightarrow> node list \<times> exn option) \<Rightarrow> node list \<Rightarrow> string
     \<Rightarrow> node list \<times> ui_event list" where
  "delete_file delete_ref_doc index file_to_manage =
     (case delete_ref_doc index file_to_manage of
        (index', None) \<Rightarrow>
          (index', [Sidebar_success (deleted_message file_to_manage), Cache_clear, Rerun])
      | (index', Some e) \<Rightarrow>
          (index', [Sidebar_error delete_error_message, Show_exception e]))"

section \<open>db_utils.py\<close>

text \<open>
  \<open>os.getenv\<close> gives \<open>None\<close> for a variable that is not set; an f-string shows \<open>None\<close> as
  the text \<open>None\<close>; \<open>all\<close> takes \<open>None\<close> and the empty string as false.
\<close>

definition fstr :: "string option \<Rightarrow> string" where
  "fstr v = (case v of None \<Rightarrow> ''None'' | Some s \<Rightarrow> s)"

definition truthy :: "string option \<Rightarrow> bool" where
  "truthy v = (case v of None \<Rightarrow> False | Some s \<Rightarrow> s \<noteq> [])"

record conn_params =
  conn_dbname :: "string option"
  conn_user :: "string option"
  conn_password :: "string option"
  conn_host :: "string option"
  conn_port :: "string option"

text \<open>The parts of a parsed URL that \<open>get_vector_store\<close> reads.\<close>

record url =
  url_host :: "string option"
  url_password :: "string option"
  url_port :: "int option"
  url_username :: "string option"

text \<open>The arguments \<open>PGVectorStore.from_params\<close> is called with.\<close>

record pg_vector_store =
  database :: "string option"
  host :: "string option"
  password :: "string option"
  port :: "int option"
  user :: "string option"
  table_name :: string
  embed_dim :: nat

datatype effect =
    Print string
  | Connect conn_params
  | Close
  | Build_index "document list" pg_vector_store

definition connection_failed_banner :: string where
  "connection_failed_banner =
     [CHR 0xF0, CHR 0x9F, CHR 0x94, CHR 0xB4] @ '' DATABASE CONNECTION FAILED! '' @
     [CHR 0xF0, CHR 0x9F, CHR 0x94, CHR 0xB4]"

text \<open>
  \<open>get_vector_store\<close>. The environment, \<open>sqlalchemy.make_url\<close> and \<open>psycopg2.connect\<close>
  (\<open>None\<close> when the connection opens) are parameters; the result is what was printed
  and attempted, in order, and the store or the exception raised.
\<close>

definition get_vector_store ::
  "(string \<rightharpoonup> string) \<Rightarrow> (string \<Rightarrow> exn + url) \<Rightarrow> (conn_params \<Rightarrow> exn option)
     \<Rightarrow> effect list \<times> (exn + pg_vector_store)" where
  "get_vector_store getenv make_url connect =
     (let db_user = getenv ''DB_USER'';
          db_password = getenv ''DB_PASSWORD'';
          db_host = getenv ''DB_HOST'';
          db_port = getenv ''DB_PORT'';
          db_name = getenv ''DB_NAME''
      in
      if \<not> list_all truthy [db_user, db_password, db_host, db_port, db_name] then
        ([], Inl (ValueError ''Database environment variables are not fully set.''))
      else
        (let connection_string =
               ''postgresql+psycopg2://'' @ fstr db_user @ '':'' @ fstr db_password @ ''@'' @
               fstr db_host @ '':'' @ fstr db_port @ ''/'' @ fstr db_name
         in
         case make_url connection_string of
           Inl e \<Rightarrow> ([], Inl e)
         | Inr u \<Rightarrow>
             (let params = \<lparr>conn_dbname = db_name, conn_user = db_user,
                            conn_password = db_password, conn_host = db_host,
                            conn_port = db_port\<rparr>
              in
              case connect params of
                Some (OperationalError m) \<Rightarrow>
                  ([Connect params,
                    Print (replicate 80 CHR ''=''),
                    Print connection_failed_banner,
                    Print ''Please ensure your PostgreSQL server is running and configured correctly.'',
                    Print (''Error: '' @ m),
                    Print (replicate 80 CHR ''='')],
                   Inl (OperationalError m))
              | Some e \<Rightarrow> ([Connect params], Inl e)
              | None \<Rightarrow>
                  ([Connect params, Close],
                   Inr \<lparr>database = db_name, host = url_host u, password = url_password u,
                        port = url_port u, user = url_username u,
                        table_name = ''agentic_rag_documents'', embed_dim = 384\<rparr>))))"

text \<open>
  \<open>get_index\<close> of app.py: it prints one line, calls \<open>get_vector_store\<close> and wraps the
  store in an index. \<open>VectorStoreIndex.from_vector_store\<close> is a parameter.
\<close>

definition get_index ::
  "(string \<rightharpoonup> string) \<Rightarrow> (string \<Rightarrow> exn + url) \<Rightarrow> (conn_params \<Rightarrow> exn option)
     \<Rightarrow> (pg_vector_store \<Rightarrow> exn + 'index) \<Rightarrow> effect list \<times> (exn + 'index)" where
  "get_index getenv make_url connect from_vector_store =
     (case get_vector_store getenv make_url connect of
        (effects, Inl e) \<Rightarrow>
          (Print ''Connecting to vector store and getting index...'' # effects, Inl e)
      | (effects, Inr vector_store) \<Rightarrow>
          (Print ''Connecting to vector store and getting index...'' # effects,
           from_vector_store vector_store))"

text \<open>
  The \<open>try\<close> block around \<open>index = get_index()\<close> (app.py 59-65): on any exception two
  error messages, the exception and \<open>st.stop()\<close>.
\<close>

definition app_start ::
  "(string \<rightharpoonup> string) \<Rightarrow> (string \<Rightarrow> exn + url) \<Rightarrow> (conn_params \<Rightarrow> exn option)
     \<Rightarrow> (pg_vector_store \<Rightarrow> exn + 'index) \<Rightarrow> effect list \<times> ui_event list \<times> 'index option" where
  "app_start getenv make_url connect from_vector_store =
     (case get_index getenv make_url connect from_vector_store of
        (effects, Inr index) \<Rightarrow> (effects, [], Some index)
      | (effects, Inl e) \<Rightarrow>
          (effects,
           [Main_error ([CHR 0xF0, CHR 0x9F, CHR 0x94, CHR 0xB4] @
              '' Failed to connect to the database and initialize the index.''),
            Main_error
              ''Please ensure your PostgreSQL container is running and .env settings are correct.'',
            Show_exception e,
            Stop],
           None))"

section \<open>ingest.py\<close>

text \<open>
  The settings made when the script is loaded: the embedding model (app.py names its
  own) and the arguments of \<open>SentenceSplitter\<close>.
\<close>

definition ingest_embed_model :: string where
  "ingest_embed_model = ''BAAI/bge-small-en-v1.5''"

definition app_embed_model :: string where
  "app_embed_model = ''BAAI/bge-small-en-v1.5''"

definition chunk_size :: nat where
  "chunk_size = 512"

definition chunk_overlap :: nat where
  "chunk_overlap = 20"

text \<open>The decimal text of a number, as an f-string shows \<open>len(documents)\<close>.\<close>

definition digit :: "nat \<Rightarrow> char" where
  "digit d = char_of (d + 48)"

function decimal :: "nat \<Rightarrow> string" where
  "decimal n = (if 10 \<le> n then decimal (n div 10) @ [digit (n mod 10)] else [digit n])"
  by pat_completeness auto
termination
  by (relation "measure (\<lambda>n. n)") auto

definition not_a_directory_message :: "string \<Rightarrow> string" where
  "not_a_directory_message data_path =
     [CHR 0xE2, CHR 0x9D, CHR 0x8C] @ '' Error: The provided path '' @ [CHR 0x27] @ data_path @
     [CHR 0x27] @ '' is not a valid directory.''"

definition ingesting_message :: "string \<Rightarrow> string" where
  "ingesting_message data_path =
     [CHR 0xF0, CHR 0x9F, CHR 0x93, CHR 0x81] @ '' Ingesting documents from directory: '' @
     data_path"

definition found_message :: "nat \<Rightarrow> string" where
  "found_message n = ''Found '' @ decimal n @ '' document(s) to ingest.''"

definition ingested_message :: string where
  "ingested_message =
     ''\<newline>'' @ [CHR 0xE2, CHR 0x9C, CHR 0x85] @
     '' Successfully ingested data into the database.''"

text \<open>
  Everything outside the script that \<open>ingest_data\<close> consults: \<open>os.path.isdir\<close>, the
  directory reader's \<open>load_data\<close>, the environment and the two library calls of
  \<open>get_vector_store\<close>, and \<open>VectorStoreIndex.from_documents\<close> (\<open>None\<close> when it returns).
\<close>

record ingest_env =
  os_path_isdir :: "string \<Rightarrow> bool"
  reader_load_data :: "string \<Rightarrow> exn + document list"
  os_getenv :: "string \<rightharpoonup> string"
  sqlalchemy_make_url :: "string \<Rightarrow> exn + url"
  psycopg2_connect :: "conn_params \<Rightarrow> exn option"
  index_from_documents :: "document list \<Rightarrow> pg_vector_store \<Rightarrow> exn option"

text \<open>
  \<open>ingest_data\<close>: what it prints and attempts, in order, and the exception that leaves
  it, \<open>None\<close> when it returns (every \<open>return\<close> of the function returns \<open>None\<close>).
\<close>

definition ingest_data :: "ingest_env \<Rightarrow> string \<Rightarrow> effect list \<times> exn option" where
  "ingest_data env data_path =
     (if \<not> os_path_isdir env data_path then
        ([Print (not_a_directory_message data_path)], None)
      else
        (case reader_load_data env data_path of
           Inl e \<Rightarrow> ([Print (ingesting_message data_path)], Some e)
         | Inr documents \<Rightarrow>
             if documents = [] then
               ([Print (ingesting_message data_path),
                 Print ''No documents found in the specified directory. Exiting.''],
                None)
             else
               (let started = [Print (ingesting_message data_path),
                               Print (found_message (length documents))]
                in
                case get_vector_store (os_getenv env) (sqlalchemy_make_url env)
                       (psycopg2_connect env) of
                  (effects, Inl e) \<Rightarrow>
                    (started @ effects @
                     [Print (''Could not connect to the database. Please check your .env '' @
                             ''settings and ensure PostgreSQL is running.'')],
                     None)
                | (effects, Inr vector_store) \<Rightarrow>
                    (let building = started @ effects @
                           [Print (''Building index and storing data in PostgreSQL. '' @
                                   ''This may take a few moments...''),
                            Build_index documents vector_store]
                     in
                     case index_from_documents env documents vector_store of
                       Some e \<Rightarrow> (building, Some e)
                     | None \<Rightarrow>
                         (building @
                          [Print ingested_message,
                           Print (''You can now run the Streamlit app (`streamlit run app.py`) '' @
                                  ''to chat with your documents.'')],
                          None)))))"

text \<open>
  The main block: the optional positional argument \<open>datapath\<close> with its default, then
  \<open>ingest_data\<close>. The interpreter ends with status 0 when the script runs to its end
  and with status 1 when an exception leaves it.
\<close>

definition ingest_main :: "ingest_env \<Rightarrow> string option \<Rightarrow> effect list \<times> exn option" where
  "ingest_main env datapath =
     ingest_data env (case datapath of None \<Rightarrow> ''./data'' | Some p \<Rightarrow> p)"

definition exit_status :: "exn option \<Rightarrow> nat" where
  "exit_status raised_exn = (case raised_exn of None \<Rightarrow> 0 | Some e \<Rightarrow> 1)"

section \<open>Reference notions for the citation block\<close>

text \<open>
  The \<open>file_name\<close> values found in the metadata of the given nodes, in node order and
  with repetitions.
\<close>

definition retrieved_file_names :: "node list \<Rightarrow> string list" where
  "retrieved_file_names nodes = List.map_filter (\<lambda>n. metadata n ''file_name'') nodes"

text \<open>
  A citation block for a list of file names: the header and one bullet per name;
  no text at all for no names.
\<close>

definition citation_block :: "string list \<Rightarrow> string" where
  "citation_block files =
     (if files = [] then []
      else citations_header @ concat (map (\<lambda>f. ''\<newline>* `'' @ f @ ''`'') files))"

section \<open>Example inputs\<close>

definition sofia_nodes :: "node list" where
  "sofia_nodes =
     [\<lparr>ref_doc_id = ''notes.txt'', node_text = ''The capital of Bulgaria is Sofia.'',
       metadata = [''file_name'' \<mapsto> ''notes.txt'']\<rparr>,
      \<lparr>ref_doc_id = ''atlas.md'', node_text = ''Sofia lies in the west.'',
       metadata = [''file_name'' \<mapsto> ''atlas.md'']\<rparr>,
      \<lparr>ref_doc_id = ''notes.txt'', node_text = ''Plovdiv is older.'',
       metadata = [''file_name'' \<mapsto> ''notes.txt'']\<rparr>]"

definition sofia_response :: streaming_response where
  "sofia_response =
     \<lparr>response_gen = [''So'', ''fia''], gen_raises = None, source_nodes = sofia_nodes\<rparr>"

definition sofia_engine :: "string \<Rightarrow> exn + streaming_response" where
  "sofia_engine prompt = Inr sofia_response"



definition unsorted_table :: "node list" where
  "unsorted_table =
     [\<lparr>ref_doc_id = ''b.txt'', node_text = ''second'', metadata = [''file_name'' \<mapsto> ''b.txt'']\<rparr>,
      \<lparr>ref_doc_id = ''a.txt'', node_text = ''first'', metadata = [''file_name'' \<mapsto> ''a.txt'']\<rparr>]"

definition unsorted_rows :: "row list" where
  "unsorted_rows = [[Some ''b.txt''], [Some ''a.txt'']]"

definition missing_dir_env :: ingest_env where
  "missing_dir_env =
     \<lparr>os_path_isdir = (\<lambda>p. False),
      reader_load_data = (\<lambda>p. Inl (ValueError ''No files found'')),
      os_getenv = Map.empty,
      sqlalchemy_make_url = (\<lambda>s. Inl (OtherException ''Could not parse URL'')),
      psycopg2_connect = (\<lambda>p. Some (OperationalError ''connection refused'')),
      index_from_documents = (\<lambda>ds vs. None)\<rparr>"

definition env_without_password :: "string \<rightharpoonup> string" where
  "env_without_password =
     [''DB_USER'' \<mapsto> ''rag'', ''DB_HOST'' \<mapsto> ''localhost'', ''DB_PORT'' \<mapsto> ''5432'',
      ''DB_NAME'' \<mapsto> ''ragdb'']"

definition local_url :: "string \<Rightarrow> exn + url" where
  "local_url s =
     Inr \<lparr>url_host = Some ''localhost'', url_password = Some ''secret'', url_port = Some 5432,
          url_username = Some ''rag''\<rparr>"

definition refusing_connect :: "conn_params \<Rightarrow> exn option" where
  "refusing_connect p = Some (OperationalError ''connection refused'')"

definition store_as_index :: "pg_vector_store \<Rightarrow> exn + pg_vector_store" where
  "store_as_index vs = Inr vs"

text \<open>
  Two behaviours of the framework's \<open>delete_ref_doc\<close> used as examples: one removes the
  nodes whose \<open>ref_doc_id\<close> is the identifier and does not raise when there is none,
  the other raises and leaves the nodes as they are.
\<close>

definition vector_store_delete :: "node list \<Rightarrow> string \<Rightarrow> node list \<times> exn option" where
  "vector_store_delete index ident = (filter (\<lambda>n. ref_doc_id n \<noteq> ident) index, None)"

definition failing_delete :: "node list \<Rightarrow> string \<Rightarrow> node list \<times> exn option" where
  "failing_delete index ident = (index, Some (OperationalError ''server closed the connection''))"


text \<open>
  A directory with one document, in an environment where \<open>DB_PASSWORD\<close> is not set.
\<close>

definition notes_document :: document where
  "notes_document =
     \<lparr>doc_id = ''doc-1'', doc_text = ''The capital of Bulgaria is Sofia.'',
      doc_metadata = [''file_name'' \<mapsto> ''notes.txt'']\<rparr>"

definition unconfigured_env :: ingest_env where
  "unconfigured_env =
     \<lparr>os_path_isdir = (\<lambda>p. p = ''./data''),
      reader_load_data = (\<lambda>p. Inr [notes_document]),
      os_getenv = env_without_password,
      sqlalchemy_make_url = local_url,
      psycopg2_connect = refusing_connect,
      index_from_documents = (\<lambda>ds vs. None)\<rparr>"

text \<open>The exception \<open>get_vector_store\<close> raises for incomplete settings, and the five names it reads.\<close>

definition config_error :: exn where
  "config_error = ValueError ''Database environment variables are not fully set.''"

definition required_settings :: "string list" where
  "required_settings = [''DB_USER'', ''DB_PASSWORD'', ''DB_HOST'', ''DB_PORT'', ''DB_NAME'']"

section \<open>Properties of the chat loop\<close>

lemma stream_loop_eq:
  "stream_loop frags (acc, shown) =
     (acc @ concat frags,
      shown @ map (\<lambda>k. acc @ concat (take (Suc k) frags) @ cursor) [0..<length frags])"
proof (induction frags arbitrary: acc shown)
  case Nil
  then show ?case by simp
next
  case (Cons t rest)
  have "map (\<lambda>k. acc @ concat (take (Suc k) (t # rest)) @ cursor) [0..<length (t # rest)] =
        (acc @ t @ cursor) # map (\<lambda>k. (acc @ t) @ concat (take (Suc k) rest) @ cursor) [0..<length rest]"
    by (simp add: upt_conv_Cons map_Suc_upt [symmetric] del: upt_Suc)
  with Cons show ?case by simp
qed

lemma collect_source_files_eq:
  "collect_source_files ns S = S \<union> set (List.map_filter (\<lambda>n. metadata n ''file_name'') ns)"
  by (induction ns arbitrary: S) (auto split: option.splits)

lemma append_citations_eq:
  "append_citations fs acc = acc @ concat (map (\<lambda>f. ''\<newline>* `'' @ f @ ''`'') fs)"
  by (induction fs arbitrary: acc) auto

lemma citations_markdown_eq:
  "citations_markdown nodes =
     citation_block (sorted_list_of_set (set (retrieved_file_names nodes)))"
  by (cases nodes)
     (simp_all add: citations_markdown_def citation_block_def collect_source_files_eq
        append_citations_eq retrieved_file_names_def List.map_filter_simps Let_def)

lemma chat_turn_completed:
  assumes "query prompt = Inr resp" and "gen_raises resp = None"
  shows "chat_turn query messages prompt =
     \<lparr>messages_after = messages @ [\<lparr>role = ''user'', content = prompt\<rparr>,
          \<lparr>role = ''assistant'',
           content = concat (response_gen resp) @ citations_markdown (source_nodes resp)\<rparr>],
      placeholder =
        map (\<lambda>k. concat (take (Suc k) (response_gen resp)) @ cursor)
          [0..<length (response_gen resp)]
        @ [concat (response_gen resp) @ citations_markdown (source_nodes resp)],
      raised = None\<rparr>"
  using assms by (simp add: chat_turn_def stream_loop_eq Let_def)

lemma chat_turn_extends:
  "\<exists>suffix. messages_after (chat_turn query messages prompt) = messages @ suffix"
  by (simp add: chat_turn_def stream_loop_eq Let_def split: sum.splits option.splits)

lemma chat_block_extends:
  "\<exists>suffix. messages_after (chat_block query session_messages chat_input) =
             init_messages session_messages @ suffix"
  using chat_turn_extends [of query "init_messages session_messages"]
  by (simp add: chat_block_def Let_def split: option.splits)

lemma chat_runs_extends:
  "\<exists>suffix. init_messages (chat_runs query session_messages inputs) =
             init_messages session_messages @ suffix"
proof (induction inputs arbitrary: session_messages)
  case Nil
  show ?case by simp
next
  case (Cons chat_input later)
  obtain s1 where s1: "messages_after (chat_block query session_messages chat_input) =
      init_messages session_messages @ s1"
    using chat_block_extends by blast
  obtain s2 where "init_messages (chat_runs query
        (Some (messages_after (chat_block query session_messages chat_input))) later) =
      init_messages (Some (messages_after (chat_block query session_messages chat_input))) @ s2"
    using Cons.IH by blast
  with s1 show ?case by (simp add: init_messages_def)
qed

lemma sofia_files:
  "sorted_list_of_set (set (retrieved_file_names sofia_nodes)) = [''atlas.md'', ''notes.txt'']"
  by code_simp

lemma upt_2: "[0..<2] = [0, Suc 0]"
  by (simp add: upt_conv_Cons)

text \<open>
  C1. When a query is answered (the engine returns a response and its generator ends
  normally), the placeholder shows, fragment by fragment, the text streamed so far
  followed by the cursor and nothing else; only then does it show the whole answer
  followed by the citation block. The block lists the \<open>file_name\<close> values of the
  metadata of the nodes retrieved for this query, without repetition and in sorted
  order (Python's order on strings), whatever the stored messages are, and that same
  text is the content of the assistant message that is stored.
\<close>

theorem citations_from_retrieved_nodes_after_stream:
  assumes "query prompt = Inr resp" and "gen_raises resp = None"
  shows "let files = sorted_list_of_set (set (retrieved_file_names (source_nodes resp)));
             answer = concat (response_gen resp);
             t = chat_turn query messages prompt
         in sorted files \<and> distinct files
          \<and> set files = set (retrieved_file_names (source_nodes resp))
          \<and> placeholder t =
              map (\<lambda>k. concat (take (Suc k) (response_gen resp)) @ cursor)
                [0..<length (response_gen resp)]
              @ [answer @ citation_block files]
          \<and> last (messages_after t) =
              \<lparr>role = ''assistant'', content = answer @ citation_block files\<rparr>"
  using chat_turn_completed
          [where query = query and prompt = prompt and resp = resp and messages = messages]
        assms
  by (simp add: citations_markdown_eq Let_def)

theorem citations_from_retrieved_nodes_after_stream_witness:
  "sofia_engine ''capital?'' = Inr sofia_response \<and> gen_raises sofia_response = None
   \<and> placeholder (chat_turn sofia_engine [] ''capital?'') =
       [''So'' @ cursor, ''Sofia'' @ cursor,
        ''Sofia'' @ citations_header @ ''\<newline>* `atlas.md`\<newline>* `notes.txt`'']
   \<and> last (messages_after (chat_turn sofia_engine [] ''capital?'')) =
       \<lparr>role = ''assistant'',
        content = ''Sofia'' @ citations_header @ ''\<newline>* `atlas.md`\<newline>* `notes.txt`''\<rparr>"
proof -
  have q: "sofia_engine ''capital?'' = Inr sofia_response" by (simp add: sofia_engine_def)
  have g: "gen_raises sofia_response = None" by (simp add: sofia_response_def)
  have s: "source_nodes sofia_response = sofia_nodes" by (simp add: sofia_response_def)
  have r: "response_gen sofia_response = [''So'', ''fia'']" by (simp add: sofia_response_def)
  from citations_from_retrieved_nodes_after_stream
         [where query = sofia_engine and prompt = "''capital?''" and resp = sofia_response
            and messages = "[]"] q g
  show ?thesis
    by (simp add: Let_def s r sofia_files citation_block_def upt_2)
qed




text \<open>
  C9. Over any sequence of script runs the messages a session already holds stay an
  unchanged prefix of the messages it holds afterwards. A run whose turn completes
  adds exactly the user entry and one assistant entry, whose content is the last text
  the placeholder showed, the streamed answer with the citation block already
  appended; replaying the stored messages in a later run therefore shows that text.
\<close>

theorem history_append_only:
  "take (length (init_messages session_messages))
        (init_messages (chat_runs query session_messages inputs))
     = init_messages session_messages
   \<and> (query prompt = Inr resp \<and> gen_raises resp = None \<and> prompt \<noteq> [] \<longrightarrow>
        (let t = chat_block query session_messages (Some prompt) in
           placeholder t \<noteq> []
         \<and> last (placeholder t) =
             concat (response_gen resp) @ citations_markdown (source_nodes resp)
         \<and> messages_after t =
             init_messages session_messages @
               [\<lparr>role = ''user'', content = prompt\<rparr>,
                \<lparr>role = ''assistant'', content = last (placeholder t)\<rparr>]
         \<and> replay (messages_after t) =
             replay (init_messages session_messages) @
               [(''user'', prompt), (''assistant'', last (placeholder t))]))"
proof -
  obtain suffix where
    "init_messages (chat_runs query session_messages inputs) =
       init_messages session_messages @ suffix"
    using chat_runs_extends by blast
  then have kept: "take (length (init_messages session_messages))
        (init_messages (chat_runs query session_messages inputs))
     = init_messages session_messages"
    by simp
  have turn: "query prompt = Inr resp \<and> gen_raises resp = None \<and> prompt \<noteq> [] \<longrightarrow>
        (let t = chat_block query session_messages (Some prompt) in
           placeholder t \<noteq> []
         \<and> last (placeholder t) =
             concat (response_gen resp) @ citations_markdown (source_nodes resp)
         \<and> messages_after t =
             init_messages session_messages @
               [\<lparr>role = ''user'', content = prompt\<rparr>,
                \<lparr>role = ''assistant'', content = last (placeholder t)\<rparr>]
         \<and> replay (messages_after t) =
             replay (init_messages session_messages) @
               [(''user'', prompt), (''assistant'', last (placeholder t))])"
  proof (intro impI, elim conjE)
    assume q: "query prompt = Inr resp" and g: "gen_raises resp = None" and p: "prompt \<noteq> []"
    have "chat_block query session_messages (Some prompt) =
            chat_turn query (init_messages session_messages) prompt"
      using p by (simp add: chat_block_def Let_def)
    then show "let t = chat_block query session_messages (Some prompt) in
           placeholder t \<noteq> []
         \<and> last (placeholder t) =
             concat (response_gen resp) @ citations_markdown (source_nodes resp)
         \<and> messages_after t =
             init_messages session_messages @
               [\<lparr>role = ''user'', content = prompt\<rparr>,
                \<lparr>role = ''assistant'', content = last (placeholder t)\<rparr>]
         \<and> replay (messages_after t) =
             replay (init_messages session_messages) @
               [(''user'', prompt), (''assistant'', last (placeholder t))]"
      using chat_turn_completed
              [where query = query and prompt = prompt and resp = resp
                 and messages = "init_messages session_messages"] q g
      by (simp add: Let_def replay_def)
  qed
  from kept turn show ?thesis by blast
qed

theorem history_append_only_witness:
  "sofia_engine ''capital?'' = Inr sofia_response \<and> gen_raises sofia_response = None
   \<and> ''capital?'' \<noteq> []
   \<and> messages_after (chat_block sofia_engine None (Some ''capital?'')) =
       [\<lparr>role = ''assistant'', content = greeting\<rparr>,
        \<lparr>role = ''user'', content = ''capital?''\<rparr>,
        \<lparr>role = ''assistant'',
         content = last (placeholder (chat_block sofia_engine None (Some ''capital?'')))\<rparr>]
   \<and> last (placeholder (chat_block sofia_engine None (Some ''capital?''))) =
       ''Sofia'' @ citations_header @ ''\<newline>* `atlas.md`\<newline>* `notes.txt`''"
proof -
  have q: "sofia_engine ''capital?'' = Inr sofia_response" by (simp add: sofia_engine_def)
  have g: "gen_raises sofia_response = None" by (simp add: sofia_response_def)
  have s: "source_nodes sofia_response = sofia_nodes" by (simp add: sofia_response_def)
  have r: "response_gen sofia_response = [''So'', ''fia'']" by (simp add: sofia_response_def)
  have i: "init_messages None = [\<lparr>role = ''assistant'', content = greeting\<rparr>]"
    by (simp add: init_messages_def)
  from history_append_only
         [where query = sofia_engine and prompt = "''capital?''" and resp = sofia_response
            and session_messages = None and inputs = "[]"] q g
  show ?thesis
    by (simp add: Let_def s r i sofia_files citations_markdown_eq citation_block_def)
qed

section \<open>Properties of the stored-file listing\<close>

lemma rows_shape:
  "select_distinct_file_name table results \<Longrightarrow> r \<in> set results \<Longrightarrow> \<exists>f. r = [Some f]"
  by (auto simp: select_distinct_file_name_def)

lemma kept_rows:
  "(\<And>r. r \<in> set results \<Longrightarrow> \<exists>f. r = [Some f]) \<Longrightarrow>
   map (\<lambda>f. [Some f]) (List.map_filter kept_file_name results) =
     filter (\<lambda>r. r \<noteq> [Some []]) results"
proof (induction results)
  case Nil
  show ?case by (simp add: List.map_filter_simps)
next
  case (Cons r rs)
  obtain f where r: "r = [Some f]" using Cons.prems [of r] by auto
  have "map (\<lambda>f. [Some f]) (List.map_filter kept_file_name rs) =
          filter (\<lambda>r. r \<noteq> [Some []]) rs"
    using Cons.IH Cons.prems by simp
  then show ?case by (simp add: r List.map_filter_simps)
qed

lemma kept_distinct:
  assumes "select_distinct_file_name table results"
  shows "distinct (List.map_filter kept_file_name results)"
proof -
  have "distinct (filter (\<lambda>r. r \<noteq> [Some []]) results)"
    using assms by (simp add: select_distinct_file_name_def)
  then have "distinct (map (\<lambda>f. [Some f]) (List.map_filter kept_file_name results))"
    using kept_rows [of results] rows_shape [OF assms] by simp
  then show ?thesis by (simp add: distinct_map)
qed

lemma kept_set:
  assumes "select_distinct_file_name table results"
  shows "set (List.map_filter kept_file_name results) =
           {f \<in> set (retrieved_file_names table). f \<noteq> []}"
proof -
  have "map (\<lambda>f. [Some f]) (List.map_filter kept_file_name results) =
          filter (\<lambda>r. r \<noteq> [Some []]) results"
    using kept_rows [of results] rows_shape [OF assms] by simp
  then have "set (map (\<lambda>f. [Some f]) (List.map_filter kept_file_name results)) =
          set (filter (\<lambda>r. r \<noteq> [Some []]) results)"
    by (rule arg_cong)
  then have "(\<lambda>f. [Some f]) ` set (List.map_filter kept_file_name results) =
          {r \<in> set results. r \<noteq> [Some []]}"
    by simp
  also have "\<dots> = (\<lambda>f. [Some f]) ` {f \<in> set (retrieved_file_names table). f \<noteq> []}"
    using assms by (auto simp: select_distinct_file_name_def retrieved_file_names_def)
  finally show ?thesis
    by (simp add: inj_image_eq_iff inj_def)
qed

text \<open>
  C3, as the code has it. On a table that exists, the listing returns the distinct
  non-empty \<open>file_name\<close> values in the order the database gave their rows (the query
  has no \<open>ORDER BY\<close> and the function does not sort), and shows no error; on an empty
  table and on a missing table it returns the empty list and shows no error.
\<close>

theorem listing_distinct_in_database_order:
  "(select_distinct_file_name table results \<longrightarrow>
      (let files = fst (get_stored_files (Fetched results)) in
         map (\<lambda>f. [Some f]) files = filter (\<lambda>r. r \<noteq> [Some []]) results
       \<and> distinct files
       \<and> set files = {f \<in> set (retrieved_file_names table). f \<noteq> []}
       \<and> snd (get_stored_files (Fetched results)) = []))
   \<and> (select_distinct_file_name [] results \<longrightarrow> get_stored_files (Fetched results) = ([], []))
   \<and> (db_answers (No_table m) session \<longrightarrow> get_stored_files session = ([], []))"
proof (intro conjI impI)
  assume a: "select_distinct_file_name table results"
  show "let files = fst (get_stored_files (Fetched results)) in
         map (\<lambda>f. [Some f]) files = filter (\<lambda>r. r \<noteq> [Some []]) results
       \<and> distinct files
       \<and> set files = {f \<in> set (retrieved_file_names table). f \<noteq> []}
       \<and> snd (get_stored_files (Fetched results)) = []"
    using kept_rows [of results] rows_shape [OF a] kept_distinct [OF a] kept_set [OF a]
    by (simp add: get_stored_files_def stored_files_try_def Let_def)
next
  assume "select_distinct_file_name [] results"
  then have "results = []"
    by (simp add: select_distinct_file_name_def List.map_filter_simps)
  then show "get_stored_files (Fetched results) = ([], [])"
    by (simp add: get_stored_files_def stored_files_try_def List.map_filter_simps)
next
  assume "db_answers (No_table m) session"
  then show "get_stored_files session = ([], [])"
    by (simp add: get_stored_files_def stored_files_try_def)
qed

text \<open>
  The listing is not sorted: a table with the files \<open>b.txt\<close> and \<open>a.txt\<close>, answered by
  the database in that order, is listed as \<open>b.txt\<close>, \<open>a.txt\<close>.
\<close>

theorem listing_not_sorted_counterexample:
  "db_answers (Table unsorted_table) (Fetched unsorted_rows)
   \<and> fst (get_stored_files (Fetched unsorted_rows)) = [''b.txt'', ''a.txt'']
   \<and> \<not> sorted (fst (get_stored_files (Fetched unsorted_rows)))"
  by (simp add: unsorted_table_def unsorted_rows_def select_distinct_file_name_def
        get_stored_files_def stored_files_try_def List.map_filter_simps)

theorem listing_distinct_in_database_order_witness:
  "select_distinct_file_name unsorted_table unsorted_rows
   \<and> fst (get_stored_files (Fetched unsorted_rows)) = [''b.txt'', ''a.txt'']
   \<and> select_distinct_file_name [] []
   \<and> get_stored_files (Fetched []) = ([], [])
   \<and> db_answers (No_table ''relation does not exist'')
        (Execute_raises (UndefinedTable ''relation does not exist''))
   \<and> get_stored_files (Execute_raises (UndefinedTable ''relation does not exist'')) = ([], [])"
proof -
  have a: "select_distinct_file_name unsorted_table unsorted_rows"
    by (simp add: unsorted_table_def unsorted_rows_def select_distinct_file_name_def
          List.map_filter_simps)
  have b: "select_distinct_file_name [] []"
    by (simp add: select_distinct_file_name_def List.map_filter_simps)
  have c: "db_answers (No_table ''relation does not exist'')
        (Execute_raises (UndefinedTable ''relation does not exist''))"
    by simp
  have f: "filter (\<lambda>r. r \<noteq> [Some []]) unsorted_rows = [[Some ''b.txt''], [Some ''a.txt'']]"
    by (simp add: unsorted_rows_def)
  from listing_distinct_in_database_order
         [where table = unsorted_table and results = unsorted_rows
            and m = "''relation does not exist''"
            and session = "Execute_raises (UndefinedTable ''relation does not exist'')"]
       a c
  have 1: "map (\<lambda>f. [Some f]) (fst (get_stored_files (Fetched unsorted_rows))) =
             [[Some ''b.txt''], [Some ''a.txt'']]"
    and 3: "get_stored_files (Execute_raises (UndefinedTable ''relation does not exist'')) = ([], [])"
    by (simp_all add: Let_def f)
  from 1 have l1: "fst (get_stored_files (Fetched unsorted_rows)) = [''b.txt'', ''a.txt'']"
    by (auto simp: map_eq_Cons_conv)
  from listing_distinct_in_database_order [where table = "[]" and results = "[]"] b
  have 2: "get_stored_files (Fetched []) = ([], [])" by simp
  from a b c l1 2 3 show ?thesis by simp
qed

text \<open>
  C10. Whatever the database session does, \<open>get_stored_files\<close> returns a list. When
  the \<open>try\<close> block raises, the list is empty, the same value as for an empty table;
  nothing is shown for \<open>UndefinedTable\<close>, and for every other exception the sidebar
  shows \<open>DB Error:\<close> with its message.
\<close>

theorem listing_never_raises:
  "(stored_files_try db = Inr files \<longrightarrow> get_stored_files db = (files, []))
   \<and> (stored_files_try db = Inl e \<longrightarrow>
        fst (get_stored_files db) = []
      \<and> fst (get_stored_files db) = fst (get_stored_files (Fetched []))
      \<and> snd (get_stored_files db) =
          (case e of
             UndefinedTable m \<Rightarrow> []
           | _ \<Rightarrow> [Sidebar_error (''DB Error: '' @ exn_message e)]))"
  by (cases e) (simp_all add: get_stored_files_def stored_files_try_def List.map_filter_simps)

theorem listing_never_raises_witness:
  "stored_files_try (Connect_raises (OperationalError ''connection refused'')) =
     Inl (OperationalError ''connection refused'')
   \<and> get_stored_files (Connect_raises (OperationalError ''connection refused'')) =
       ([], [Sidebar_error ''DB Error: connection refused''])
   \<and> stored_files_try (Execute_raises (UndefinedTable ''no such relation'')) =
       Inl (UndefinedTable ''no such relation'')
   \<and> get_stored_files (Execute_raises (UndefinedTable ''no such relation'')) = ([], [])
   \<and> stored_files_try (Fetched unsorted_rows) = Inr [''b.txt'', ''a.txt'']
   \<and> get_stored_files (Fetched unsorted_rows) = ([''b.txt'', ''a.txt''], [])"
proof -
  have a: "stored_files_try (Connect_raises (OperationalError ''connection refused'')) =
     Inl (OperationalError ''connection refused'')"
    by (simp add: stored_files_try_def)
  have b: "stored_files_try (Execute_raises (UndefinedTable ''no such relation'')) =
       Inl (UndefinedTable ''no such relation'')"
    by (simp add: stored_files_try_def)
  have c: "stored_files_try (Fetched unsorted_rows) = Inr [''b.txt'', ''a.txt'']"
    by (simp add: stored_files_try_def unsorted_rows_def List.map_filter_simps)
  from listing_never_raises
         [where db = "Connect_raises (OperationalError ''connection refused'')"
            and e = "OperationalError ''connection refused''"] a
  have 1: "get_stored_files (Connect_raises (OperationalError ''connection refused'')) =
       ([], [Sidebar_error ''DB Error: connection refused''])"
    by (simp add: prod_eq_iff)
  from listing_never_raises
         [where db = "Execute_raises (UndefinedTable ''no such relation'')"
            and e = "UndefinedTable ''no such relation''"] b
  have 2: "get_stored_files (Execute_raises (UndefinedTable ''no such relation'')) = ([], [])"
    by (simp add: prod_eq_iff)
  from listing_never_raises
         [where db = "Fetched unsorted_rows" and files = "[''b.txt'', ''a.txt'']"] c
  have 3: "get_stored_files (Fetched unsorted_rows) = ([''b.txt'', ''a.txt''], [])"
    by simp
  from a b c 1 2 3 show ?thesis by simp
qed

section \<open>Properties of the delete button\<close>

text \<open>
  C5, as the code has it. The handler leaves the store as \<open>delete_ref_doc\<close> left it,
  shows the success message whenever \<open>delete_ref_doc\<close> returns without raising, and
  shows the error message with the exception when it raises. It has no other outcome
  and never checks whether anything matched.
\<close>

theorem delete_reports_success_unless_raised:
  "fst (delete_file delete_ref_doc index ident) = fst (delete_ref_doc index ident)
   \<and> (snd (delete_ref_doc index ident) = None \<longrightarrow>
        snd (delete_file delete_ref_doc index ident) =
          [Sidebar_success (deleted_message ident), Cache_clear, Rerun])
   \<and> (snd (delete_ref_doc index ident) = Some e \<longrightarrow>
        snd (delete_file delete_ref_doc index ident) =
          [Sidebar_error delete_error_message, Show_exception e])"
  by (cases "delete_ref_doc index ident") (auto simp: delete_file_def split: option.splits)

text \<open>
  Deleting a name that no stored node carries, neither as \<open>ref_doc_id\<close> nor as
  \<open>file_name\<close>, shows the success message, not a not-found report.
\<close>

theorem delete_of_absent_reports_success_counterexample:
  "''ghost.txt'' \<notin> set (map ref_doc_id sofia_nodes)
   \<and> ''ghost.txt'' \<notin> set (retrieved_file_names sofia_nodes)
   \<and> snd (delete_file vector_store_delete sofia_nodes ''ghost.txt'') =
       [Sidebar_success (deleted_message ''ghost.txt''), Cache_clear, Rerun]"
  by (simp add: sofia_nodes_def retrieved_file_names_def List.map_filter_simps
        delete_file_def vector_store_delete_def)

theorem delete_reports_success_unless_raised_witness:
  "snd (vector_store_delete sofia_nodes ''ghost.txt'') = None
   \<and> snd (delete_file vector_store_delete sofia_nodes ''ghost.txt'') =
       [Sidebar_success (deleted_message ''ghost.txt''), Cache_clear, Rerun]
   \<and> snd (failing_delete sofia_nodes ''notes.txt'') =
       Some (OperationalError ''server closed the connection'')
   \<and> snd (delete_file failing_delete sofia_nodes ''notes.txt'') =
       [Sidebar_error delete_error_message,
        Show_exception (OperationalError ''server closed the connection'')]
   \<and> fst (delete_file failing_delete sofia_nodes ''notes.txt'') = sofia_nodes"
proof -
  have a: "snd (vector_store_delete sofia_nodes ''ghost.txt'') = None"
    by (simp add: vector_store_delete_def)
  have b: "snd (failing_delete sofia_nodes ''notes.txt'') =
       Some (OperationalError ''server closed the connection'')"
    by (simp add: failing_delete_def)
  have c: "fst (failing_delete sofia_nodes ''notes.txt'') = sofia_nodes"
    by (simp add: failing_delete_def)
  from delete_reports_success_unless_raised
         [where delete_ref_doc = vector_store_delete and index = sofia_nodes
            and ident = "''ghost.txt''"] a
  have 1: "snd (delete_file vector_store_delete sofia_nodes ''ghost.txt'') =
       [Sidebar_success (deleted_message ''ghost.txt''), Cache_clear, Rerun]"
    by blast
  from delete_reports_success_unless_raised
         [where delete_ref_doc = failing_delete and index = sofia_nodes
            and ident = "''notes.txt''"
            and e = "OperationalError ''server closed the connection''"] b c
  have 2: "snd (delete_file failing_delete sofia_nodes ''notes.txt'') =
       [Sidebar_error delete_error_message,
        Show_exception (OperationalError ''server closed the connection'')]"
    and 3: "fst (delete_file failing_delete sofia_nodes ''notes.txt'') = sofia_nodes"
    by simp_all
  from a b 1 2 3 show ?thesis by simp
qed

section \<open>Properties of ingest.py\<close>

text \<open>
  C6, as the code has it. When the path is not a directory, \<open>ingest_data\<close> prints one
  error line and returns: nothing is read or stored, no exception leaves the function
  and the script ends with status 0. Without an argument the path is \<open>./data\<close>.
\<close>

theorem invalid_path_prints_and_returns:
  "(\<not> os_path_isdir env data_path \<longrightarrow>
      ingest_data env data_path = ([Print (not_a_directory_message data_path)], None)
    \<and> exit_status (snd (ingest_data env data_path)) = 0)
   \<and> ingest_main env None = ingest_data env ''./data''
   \<and> ingest_main env (Some data_path) = ingest_data env data_path"
  by (simp add: ingest_data_def ingest_main_def exit_status_def)

text \<open>
  For a path that does not exist the script completes normally: no exception, status 0.
\<close>

theorem invalid_path_completes_normally_counterexample:
  "\<not> os_path_isdir missing_dir_env ''./missing''
   \<and> snd (ingest_main missing_dir_env (Some ''./missing'')) = None
   \<and> exit_status (snd (ingest_main missing_dir_env (Some ''./missing''))) = 0"
  by (simp add: missing_dir_env_def ingest_main_def ingest_data_def exit_status_def)

theorem invalid_path_prints_and_returns_witness:
  "\<not> os_path_isdir missing_dir_env ''./data''
   \<and> ingest_main missing_dir_env None = ([Print (not_a_directory_message ''./data'')], None)
   \<and> exit_status (snd (ingest_data missing_dir_env ''./data'')) = 0"
proof -
  have a: "\<not> os_path_isdir missing_dir_env ''./data''" by (simp add: missing_dir_env_def)
  from invalid_path_prints_and_returns [where env = missing_dir_env and data_path = "''./data''"] a
  show ?thesis by (simp add: exit_status_def)
qed

section \<open>Properties of db_utils.py\<close>

text \<open>
  C7, as the code has it. When one of \<open>DB_USER\<close>, \<open>DB_PASSWORD\<close>, \<open>DB_HOST\<close>, \<open>DB_PORT\<close>,
  \<open>DB_NAME\<close> is not set, \<open>get_vector_store\<close> raises its \<open>ValueError\<close> before the URL is
  parsed and before any connection is attempted, whatever the libraries would have
  done. app.py calls it from \<open>get_index\<close> when it starts, shows the failure and stops
  without an index. ingest.py calls it only once a directory's documents have been
  loaded; it catches the exception, prints that it could not connect and returns, so
  nothing is stored and no exception leaves \<open>ingest_data\<close>.
\<close>

theorem missing_setting_is_configuration_error:
  assumes "k \<in> set required_settings" and "os_getenv env k = None"
  shows "get_vector_store (os_getenv env) make_url connect = ([], Inl config_error)
       \<and> app_start (os_getenv env) make_url connect from_vector_store =
           ([Print ''Connecting to vector store and getting index...''],
            [Main_error ([CHR 0xF0, CHR 0x9F, CHR 0x94, CHR 0xB4] @
               '' Failed to connect to the database and initialize the index.''),
             Main_error
               ''Please ensure your PostgreSQL container is running and .env settings are correct.'',
             Show_exception config_error,
             Stop],
            None)
       \<and> (os_path_isdir env data_path \<and> reader_load_data env data_path = Inr documents
            \<and> documents \<noteq> [] \<longrightarrow>
           ingest_data env data_path =
             ([Print (ingesting_message data_path),
               Print (found_message (length documents)),
               Print (''Could not connect to the database. Please check your .env '' @
                      ''settings and ensure PostgreSQL is running.'')],
              None))"
proof -
  have "\<not> list_all truthy [os_getenv env ''DB_USER'', os_getenv env ''DB_PASSWORD'',
           os_getenv env ''DB_HOST'', os_getenv env ''DB_PORT'', os_getenv env ''DB_NAME'']"
    using assms by (auto simp: required_settings_def truthy_def)
  then have g: "get_vector_store (os_getenv env) mk cn = ([], Inl config_error)" for mk cn
    by (simp add: get_vector_store_def config_error_def Let_def)
  have a: "app_start (os_getenv env) make_url connect from_vector_store =
           ([Print ''Connecting to vector store and getting index...''],
            [Main_error ([CHR 0xF0, CHR 0x9F, CHR 0x94, CHR 0xB4] @
               '' Failed to connect to the database and initialize the index.''),
             Main_error
               ''Please ensure your PostgreSQL container is running and .env settings are correct.'',
             Show_exception config_error,
             Stop],
            None)"
    by (simp add: app_start_def get_index_def g)
  have i: "ingest_data env data_path =
             ([Print (ingesting_message data_path),
               Print (found_message (length documents)),
               Print (''Could not connect to the database. Please check your .env '' @
                      ''settings and ensure PostgreSQL is running.'')],
              None)"
    if "os_path_isdir env data_path" and "reader_load_data env data_path = Inr documents"
      and "documents \<noteq> []"
    using that by (simp add: ingest_data_def g Let_def)
  from g a i show ?thesis by blast
qed

text \<open>
  With \<open>DB_PASSWORD\<close> not set, ingest.py run on a directory with one document loads the
  document, reports it found, and only then meets the missing setting; it prints that
  it could not connect and ends normally, with status 0.
\<close>

theorem missing_setting_after_loading_counterexample:
  "env_without_password ''DB_PASSWORD'' = None
   \<and> ingest_main unconfigured_env None =
       ([Print (ingesting_message ''./data''),
         Print ''Found 1 document(s) to ingest.'',
         Print (''Could not connect to the database. Please check your .env '' @
                ''settings and ensure PostgreSQL is running.'')],
        None)
   \<and> exit_status (snd (ingest_main unconfigured_env None)) = 0"
proof -
  have d: "decimal (Suc 0) = ''1''"
    by code_simp
  have "\<not> list_all truthy [env_without_password ''DB_USER'', env_without_password ''DB_PASSWORD'',
           env_without_password ''DB_HOST'', env_without_password ''DB_PORT'',
           env_without_password ''DB_NAME'']"
    by (simp add: env_without_password_def truthy_def)
  then have g: "get_vector_store env_without_password local_url refusing_connect =
      ([], Inl (ValueError ''Database environment variables are not fully set.''))"
    by (simp add: get_vector_store_def Let_def)
  have m: "ingest_main unconfigured_env None =
       ([Print (ingesting_message ''./data''),
         Print ''Found 1 document(s) to ingest.'',
         Print (''Could not connect to the database. Please check your .env '' @
                ''settings and ensure PostgreSQL is running.'')],
        None)"
    by (simp add: ingest_main_def ingest_data_def unconfigured_env_def g found_message_def d
          del: decimal.simps)
  then show ?thesis
    by (simp add: env_without_password_def exit_status_def)
qed

theorem missing_setting_is_configuration_error_witness:
  "''DB_PASSWORD'' \<in> set required_settings
   \<and> os_getenv unconfigured_env ''DB_PASSWORD'' = None
   \<and> os_path_isdir unconfigured_env ''./data''
   \<and> get_vector_store (os_getenv unconfigured_env) local_url refusing_connect =
       ([], Inl config_error)
   \<and> snd (snd (app_start (os_getenv unconfigured_env) local_url refusing_connect
                  store_as_index)) = None
   \<and> snd (ingest_data unconfigured_env ''./data'') = None"
proof -
  have a: "''DB_PASSWORD'' \<in> set required_settings" by (simp add: required_settings_def)
  have b: "os_getenv unconfigured_env ''DB_PASSWORD'' = None"
    by (simp add: unconfigured_env_def env_without_password_def)
  have c: "os_path_isdir unconfigured_env ''./data''" by (simp add: unconfigured_env_def)
  have d: "reader_load_data unconfigured_env ''./data'' = Inr [notes_document]"
    by (simp add: unconfigured_env_def)
  from missing_setting_is_configuration_error
         [where k = "''DB_PASSWORD''" and env = unconfigured_env and make_url = local_url
            and connect = refusing_connect and from_vector_store = store_as_index
            and data_path = "''./data''" and documents = "[notes_document]", OF a b]
       a b c d
  show ?thesis by simp
qed

text \<open>
  Every store \<open>get_vector_store\<close> returns is configured for the table
  \<open>agentic_rag_documents\<close> and 384 dimensions; both scripts name the same embedding
  model; the splitter is set to 512 units with an overlap of 20.
\<close>

lemma store_embed_dim:
  "get_vector_store getenv make_url connect = (effects, Inr vector_store) \<Longrightarrow>
     embed_dim vector_store = 384 \<and> table_name vector_store = ''agentic_rag_documents''"
  by (auto simp: get_vector_store_def Let_def split: if_splits sum.splits option.splits exn.splits)

lemma same_embed_model: "ingest_embed_model = app_embed_model"
  by (simp add: ingest_embed_model_def app_embed_model_def)

lemma splitter_settings: "chunk_size = 512 \<and> chunk_overlap = 20 \<and> chunk_overlap < chunk_size"
  by (simp add: chunk_size_def chunk_overlap_def)

end
